theory Spec2Isabelle
  imports Main
begin

section \<open>Python values used by the driver\<close>

text \<open>
  Python strings are modelled as \<open>string\<close>. \<open>startswith s p\<close> is \<open>s.startswith(p)\<close>
  and \<open>str_in sub s\<close> is the substring test \<open>sub in s\<close>.
\<close>

fun startswith :: "string \<Rightarrow> string \<Rightarrow> bool" where
  "startswith s [] = True"
| "startswith [] (p # ps) = False"
| "startswith (c # cs) (p # ps) = (c = p \<and> startswith cs ps)"

fun str_in :: "string \<Rightarrow> string \<Rightarrow> bool" where
  "str_in sub [] = (sub = [])"
| "str_in sub (c # cs) = (startswith (c # cs) sub \<or> str_in sub cs)"

text \<open>Python's \<open>any(p(x) for x in xs)\<close>.\<close>

fun any :: "('a \<Rightarrow> bool) \<Rightarrow> 'a list \<Rightarrow> bool" where
  "any p [] = False"
| "any p (x # xs) = (p x \<or> any p xs)"

text \<open>\<open>any(name in text for name in names)\<close>, as both the driver's tests are written.\<close>

definition any_in :: "string list \<Rightarrow> string \<Rightarrow> bool" where
  "any_in names text = any (\<lambda>name. str_in name text) names"

text \<open>The exceptions that the modelled code raises or lets through.\<close>

datatype exn =
    Error string
  | DebuggerException string
  | AttributeError string
  | TypeError string
  | IOError string
  | KeyboardInterrupt
  | SystemExit
  | OtherException string

section \<open>The trace records (dextIR)\<close>

record LocIR =
  path :: "string option"
  lineno :: "int option"
  column :: "int option"

record FrameIR =
  func :: "string option"
  is_inlined :: bool
  loc :: LocIR

datatype StopReason = BREAKPOINT | STEP | PROGRAM_EXIT | ERROR | UNKNOWN

record StepIR =
  step_index :: int
  frames :: "FrameIR list"
  stop_reason :: StopReason

record ValueIR =
  expression :: string
  value_text :: string
  type_text :: string
  error_string :: "string option"
  is_optimized_away :: bool
  could_evaluate :: bool
  is_irretrievable :: bool

section \<open>The DTE debugger object seen by the Visual Studio driver\<close>

text \<open>
  The COM objects are outside the repository; the driver only reads a few of their
  attributes. A breakpoint attribute that is missing or \<open>None\<close> is \<open>None\<close> here, which
  is what \<open>getattr(bp, 'File', None)\<close> gives in both cases.
\<close>

record dte_breakpoint =
  File :: "string option"
  FileLine :: "int option"
  FileColumn :: "int option"

record dte_stackframe =
  FunctionName :: string

record dte_thread =
  StackFrames :: "dte_stackframe list"

record dte_expression =
  Value :: string
  Type :: string
  IsValidValue :: bool

record dte_debugger =
  CurrentThread :: "dte_thread option"
  BreakpointLastHit :: "dte_breakpoint option"
  Breakpoints :: "dte_breakpoint list"
  CurrentMode :: int
  GetExpression :: "string \<Rightarrow> dte_expression"

text \<open>
  The driver object (\<open>self\<close>). \<open>fn_step\<close> and \<open>fn_go\<close> are the bound backend methods
  stored by \<open>_custom_init\<close> (\<open>None\<close> before it ran); \<open>sanitize_function_name\<close> is the
  hook \<open>_sanitize_function_name\<close> of the base class, which is not part of these
  sources and is therefore a parameter; \<open>vs_step_index\<close> is \<open>self.step_index\<close>.
\<close>

record VisualStudio =
  debugger :: dte_debugger
  fn_step :: "(dte_debugger \<Rightarrow> exn + dte_debugger) option"
  fn_go :: "(dte_debugger \<Rightarrow> exn + dte_debugger) option"
  sanitize_function_name :: "string \<Rightarrow> string option"
  vs_step_index :: int

section \<open>VisualStudio.py\<close>

definition dbgDesignMode :: int where "dbgDesignMode = 1"
definition dbgBreakMode :: int where "dbgBreakMode = 2"
definition dbgRunMode :: int where "dbgRunMode = 3"

text \<open>The property \<open>_location\<close>, already packed into the \<open>LocIR\<close> it is used to build.\<close>

definition location :: "VisualStudio \<Rightarrow> LocIR" where
  "location self =
     (case BreakpointLastHit (debugger self) of
        None \<Rightarrow> \<lparr>path = None, lineno = None, column = None\<rparr>
      | Some bp \<Rightarrow> \<lparr>path = File bp, lineno = FileLine bp, column = FileColumn bp\<rparr>)"

definition frames_below_main :: "string list" where
  "frames_below_main =
     [''[Inline Frame] invoke_main'', ''__scrt_common_main_seh'',
      ''__tmainCRTStartup'', ''mainCRTStartup'']"

text \<open>\<open>frame.function or ''\<close>: \<open>None\<close> and the empty string both give the empty string.\<close>

definition or_empty :: "string option \<Rightarrow> string" where
  "or_empty s = (case s of None \<Rightarrow> [] | Some t \<Rightarrow> t)"

definition make_frame :: "VisualStudio \<Rightarrow> dte_stackframe \<Rightarrow> FrameIR" where
  "make_frame self sf =
     \<lparr>func = sanitize_function_name self (FunctionName sf),
      is_inlined = startswith (FunctionName sf) ''[Inline Frame]'',
      loc = \<lparr>path = None, lineno = None, column = None\<rparr>\<rparr>"

definition is_below_main :: "FrameIR \<Rightarrow> bool" where
  "is_below_main frame = any_in frames_below_main (or_empty (func frame))"

text \<open>The \<open>for sf in stackframes\<close> loop of \<open>get_step_info\<close>, with its \<open>break\<close>.\<close>

fun collect_frames :: "VisualStudio \<Rightarrow> dte_stackframe list \<Rightarrow> FrameIR list \<Rightarrow> FrameIR list" where
  "collect_frames self [] acc = acc"
| "collect_frames self (sf # sfs) acc =
     (let frame = make_frame self sf in
      if is_below_main frame then acc
      else collect_frames self sfs (acc @ [frame]))"

text \<open>\<open>if frames: frames[0].loc = loc\<close>.\<close>

definition set_first_loc :: "LocIR \<Rightarrow> FrameIR list \<Rightarrow> FrameIR list" where
  "set_first_loc l frs = (case frs of [] \<Rightarrow> [] | f # rest \<Rightarrow> f\<lparr>loc := l\<rparr> # rest)"

definition get_step_info :: "VisualStudio \<Rightarrow> exn + StepIR" where
  "get_step_info self =
     (case CurrentThread (debugger self) of
        None \<Rightarrow> Inl (AttributeError ''StackFrames'')
      | Some thread \<Rightarrow>
          (let frames0 = collect_frames self (StackFrames thread) [];
               l = location self;
               frames1 = set_first_loc l frames0;
               reason = (if path l = None then STEP else BREAKPOINT)
           in Inr \<lparr>step_index = vs_step_index self, frames = frames1, stop_reason = reason\<rparr>))"

definition is_running :: "VisualStudio \<Rightarrow> bool" where
  "is_running self = (CurrentMode (debugger self) = dbgRunMode)"

definition is_finished :: "VisualStudio \<Rightarrow> bool" where
  "is_finished self = (CurrentMode (debugger self) = dbgDesignMode)"


text \<open>The two literal lists of sentinel texts in \<open>evaluate_expression\<close>.\<close>

definition optimized_away_texts :: "string list" where
  "optimized_away_texts =
     [''Variable is optimized away and not available'',
      ''Value is not available, possibly due to optimization'']"

definition irretrievable_texts :: "string list" where
  "irretrievable_texts = [''???'', ''<Unable to read memory>'']"

definition evaluate_expression :: "VisualStudio \<Rightarrow> string \<Rightarrow> ValueIR" where
  "evaluate_expression self expr =
     (let result = GetExpression (debugger self) expr;
          val = Value result;
          optimized = any_in optimized_away_texts val;
          irretrievable = any_in irretrievable_texts val;
          evaluable = (IsValidValue result \<or> optimized \<or> irretrievable)
      in \<lparr>expression = expr, value_text = val, type_text = Type result,
          error_string = None, is_optimized_away = optimized,
          could_evaluate = evaluable, is_irretrievable = irretrievable\<rparr>)"

text \<open>
  \<open>step\<close>, \<open>go\<close> and \<open>launch\<close> call the stored backend method; calling the \<open>None\<close>
  that is there before \<open>_custom_init\<close> is a \<open>TypeError\<close>, and an exception of the
  backend call passes through.
\<close>

definition call_backend ::
  "(dte_debugger \<Rightarrow> exn + dte_debugger) option \<Rightarrow> VisualStudio \<Rightarrow> exn + VisualStudio" where
  "call_backend fn self =
     (case fn of
        None \<Rightarrow> Inl (TypeError ''NoneType object is not callable'')
      | Some f \<Rightarrow>
          (case f (debugger self) of
             Inl e \<Rightarrow> Inl e
           | Inr d \<Rightarrow> Inr (self\<lparr>debugger := d\<rparr>)))"

definition step :: "VisualStudio \<Rightarrow> exn + VisualStudio" where
  "step self = call_backend (fn_step self) self"

definition go :: "VisualStudio \<Rightarrow> exn + VisualStudio" where
  "go self = call_backend (fn_go self) self"

definition launch :: "VisualStudio \<Rightarrow> exn + VisualStudio" where
  "launch self = step self"

section \<open>The sandbox tool (run_debugger_internal_/Tool.py)\<close>

text \<open>
  The option namespace. The named fields are the ones these sources read;
  \<open>other_options\<close> holds every remaining attribute by name.
\<close>

record options =
  json :: string
  pickled_options :: string
  working_directory :: "string option"
  lint :: string
  unittest :: string
  time_report :: bool
  opt_debugger :: string
  verbose :: bool
  error_debug :: bool
  other_options :: "(string \<times> string) list"

text \<open>
  Modelled from the spec: the class \<open>DextIR\<close> is not part of these sources. Section 3
  gives a Trace as an ordered sequence of Steps, debugger identity/version metadata and
  the build/run configuration.
\<close>

record DextIR =
  steps :: "StepIR list"
  ir_debugger :: "string option"
  run_configuration :: string

text \<open>
  The debugger object that \<open>Debuggers.load\<close> returns, as far as \<open>Tool.go\<close> uses it.
  Its class is not part of these sources, so its attributes are fields and
  \<open>start\<close> is a parameter: run on the trace, it gives the trace with the Steps it
  appended and the exception it raised, if any.
\<close>

record loaded_debugger =
  dbg_name :: string
  is_available :: bool
  loading_error :: string
  loading_error_trace :: "string list"
  debugger_info :: string
  start :: "DextIR \<Rightarrow> exn option \<times> DextIR"

record tool_context =
  ctx_options :: options
  dextIR :: "DextIR option"

text \<open>
  What lies outside the Python objects: the files (path to content), the text handed to
  the console object for \<open>stderr\<close>, and the global \<open>Timer.display\<close>. \<open>calls\<close> is a
  ghost log of the calls made on the debugger object, in order.
\<close>

datatype debugger_call = Load | Enter | Start | Exit

datatype console_output = Auto string | Red_bug_report

record world =
  fs :: "string \<rightharpoonup> string"
  stderr :: "console_output list"
  Timer_display :: bool
  calls :: "debugger_call list"

definition nl :: string where
  "nl = [CHR 0x0A]"

text \<open>\<open>sep.join(xs)\<close>.\<close>

fun join :: "string \<Rightarrow> string list \<Rightarrow> string" where
  "join sep [] = []"
| "join sep [x] = x"
| "join sep (x # y # ys) = x @ sep @ join sep (y # ys)"

text \<open>
  \<open>handle_options\<close>. \<open>importDextIR\<close> and \<open>pickle.load\<close> are parameters; a file that
  does not exist cannot be opened, and \<open>None[:]\<close> is a \<open>TypeError\<close>.
\<close>

definition handle_options ::
  "(string \<Rightarrow> exn + DextIR) \<Rightarrow> (string \<Rightarrow> exn + options) \<Rightarrow> tool_context \<Rightarrow> world
     \<Rightarrow> (exn + unit) \<times> tool_context \<times> world" where
  "handle_options importDextIR pickle_load ctx w =
     (case fs w (json (ctx_options ctx)) of
        None \<Rightarrow> (Inl (IOError (json (ctx_options ctx))), ctx, w)
      | Some contents \<Rightarrow>
     (case importDextIR contents of
        Inl e \<Rightarrow> (Inl e, ctx, w)
      | Inr ir \<Rightarrow>
     (let ctx1 = ctx\<lparr>dextIR := Some ir\<rparr> in
      case fs w (pickled_options (ctx_options ctx1)) of
        None \<Rightarrow> (Inl (IOError (pickled_options (ctx_options ctx1))), ctx1, w)
      | Some bytes \<Rightarrow>
     (case pickle_load bytes of
        Inl e \<Rightarrow> (Inl e, ctx1, w)
      | Inr poptions \<Rightarrow>
     (case working_directory (ctx_options ctx1) of
        None \<Rightarrow> (Inl (TypeError ''NoneType object is not subscriptable''), ctx1, w)
      | Some wd \<Rightarrow>
     (let p1 = poptions\<lparr>working_directory := Some wd\<rparr>;
          p2 = p1\<lparr>lint := lint (ctx_options ctx1)\<rparr>;
          p3 = p2\<lparr>unittest := unittest (ctx_options ctx1)\<rparr>;
          p4 = p3\<lparr>json := json (ctx_options ctx1)\<rparr>;
          ctx2 = ctx1\<lparr>ctx_options := p4\<rparr>
      in (Inr (), ctx2, w\<lparr>Timer_display := time_report (ctx_options ctx2)\<rparr>)))))))"

text \<open>The message of the \<open>Error\<close> raised for a debugger that is not available.\<close>

definition could_not_load_msg :: "options \<Rightarrow> loaded_debugger \<Rightarrow> string" where
  "could_not_load_msg opts dbg =
     (let msg = ''<d>could not load '' @ dbg_name dbg @ ''</> ('' @ loading_error dbg @ '')'' @ nl
      in if verbose opts
         then msg @ nl @ ''    '' @ join ''    '' (loading_error_trace dbg)
         else msg)"

text \<open>
  \<open>Tool.go\<close>. \<open>load\<close> stands for \<open>Debuggers(self.context).load\<close> and \<open>as_json\<close> for
  the property \<open>DextIR.as_json\<close>; the \<open>Timer\<close> blocks only measure time.

  Modelled from the spec: \<open>__enter__\<close> and \<open>__exit__\<close> of the debugger object are not
  part of these sources. Section 4.1 has them acquire the session and run the teardown
  on every exit path; the teardown lets an exception of the block through.
\<close>

definition Tool_go ::
  "(string \<Rightarrow> DextIR \<Rightarrow> exn + loaded_debugger) \<Rightarrow> (DextIR \<Rightarrow> string) \<Rightarrow> tool_context \<Rightarrow> world
     \<Rightarrow> (exn + unit) \<times> tool_context \<times> world" where
  "Tool_go load as_json ctx w =
     (let opts = ctx_options ctx in
      case dextIR ctx of
        None \<Rightarrow> (Inl (AttributeError ''dextIR''), ctx, w)
      | Some ir \<Rightarrow>
     (let w1 = w\<lparr>calls := calls w @ [Load]\<rparr> in
      case load (opt_debugger opts) ir of
        Inl e \<Rightarrow> (Inl e, ctx, w1)
      | Inr dbg \<Rightarrow>
     (let ir1 = ir\<lparr>ir_debugger := Some (debugger_info dbg)\<rparr>;
          ctx1 = ctx\<lparr>dextIR := Some ir1\<rparr>
      in if \<not> is_available dbg
         then (Inl (Error (could_not_load_msg opts dbg)), ctx1, w1)
         else
          (let w2 = w1\<lparr>calls := calls w1 @ [Enter, Start]\<rparr>;
               started = start dbg ir1;
               ctx2 = ctx1\<lparr>dextIR := Some (snd started)\<rparr>;
               w3 = w2\<lparr>calls := calls w2 @ [Exit]\<rparr>
           in case fst started of
                Some (DebuggerException m) \<Rightarrow> (Inl (Error m), ctx2, w3)
              | Some e \<Rightarrow> (Inl e, ctx2, w3)
              | None \<Rightarrow>
                  (Inr (), ctx2,
                   w3\<lparr>fs := (fs w3)(json (ctx_options ctx2) \<mapsto> as_json (snd started))\<rparr>)))))"

section \<open>The entry point (Main.py)\<close>

datatype main_result = Returned int | Raised exn

text \<open>
  The \<open>except\<close> clauses of \<open>main\<close>. \<open>opts\<close> is \<open>context.options\<close>, \<open>None\<close> when the
  attribute was never set, in which case the \<open>AttributeError\<close> is passed over.
\<close>

definition main_except :: "options option \<Rightarrow> exn \<Rightarrow> world \<Rightarrow> main_result \<times> world" where
  "main_except opts e w =
     (case e of
        Error m \<Rightarrow>
          (let w1 = w\<lparr>stderr := stderr w @ [Auto (nl @ ''error: '' @ m @ nl)]\<rparr> in
           case opts of
             None \<Rightarrow> (Returned 1, w1)
           | Some os \<Rightarrow> if error_debug os then (Raised (Error m), w1) else (Returned 1, w1))
      | KeyboardInterrupt \<Rightarrow> (Raised e, w)
      | SystemExit \<Rightarrow> (Raised e, w)
      | _ \<Rightarrow> (Raised e, w\<lparr>stderr := stderr w @ [Red_bug_report]\<rparr>))"

text \<open>
  The path of \<open>main\<close> through \<open>tool_main\<close> from the call \<open>tool.go()\<close> on, for the
  sandbox tool: \<open>tool_main\<close> returns 0 after \<open>tool.go()\<close>, and an exception reaches
  the \<open>except\<close> clauses of \<open>main\<close>.
\<close>

definition main_go ::
  "(string \<Rightarrow> DextIR \<Rightarrow> exn + loaded_debugger) \<Rightarrow> (DextIR \<Rightarrow> string) \<Rightarrow> tool_context \<Rightarrow> world
     \<Rightarrow> main_result \<times> world" where
  "main_go load as_json ctx w =
     (case Tool_go load as_json ctx w of
        (Inr u, ctx', w') \<Rightarrow> (Returned 0, w')
      | (Inl e, ctx', w') \<Rightarrow> main_except (Some (ctx_options ctx')) e w')"

text \<open>
  Modelled from the spec: the script that calls \<open>main\<close> is not part of these sources.
  By section 6 the exit code is 0 on successful completion and non-zero on a failure or
  an unexpected crash: it is the value \<open>main\<close> returns, and 1 when an exception leaves
  \<open>main\<close>.
\<close>

definition exit_code :: "main_result \<Rightarrow> int" where
  "exit_code r = (case r of Returned n \<Rightarrow> n | Raised e \<Rightarrow> 1)"


section \<open>The retained frames, as the specification words them\<close>

text \<open>
  The innermost prefix of the reported stack that ends just before the first frame whose
  function name contains a runtime startup name.
\<close>

definition innermost_prefix :: "VisualStudio \<Rightarrow> dte_stackframe list \<Rightarrow> dte_stackframe list" where
  "innermost_prefix self stack = takeWhile (\<lambda>sf. \<not> is_below_main (make_frame self sf)) stack"

definition empty_loc :: LocIR where
  "empty_loc = \<lparr>path = None, lineno = None, column = None\<rparr>"

section \<open>Concrete sessions\<close>

text \<open>A stopped session with the stack \<open>foo, bar, mainCRTStartup, __tmainCRTStartup\<close>.\<close>

definition demo_GetExpression :: "string \<Rightarrow> dte_expression" where
  "demo_GetExpression expr =
     (if expr = ''x''
      then \<lparr>Value = ''Variable is optimized away and not available'', Type = ''int'',
            IsValidValue = False\<rparr>
      else if expr = ''s''
      then \<lparr>Value = ''{a=??? b=Variable is optimized away and not available}'',
            Type = ''S'', IsValidValue = False\<rparr>
      else \<lparr>Value = ''42'', Type = ''int'', IsValidValue = True\<rparr>)"

definition demo_breakpoint :: dte_breakpoint where
  "demo_breakpoint = \<lparr>File = Some ''a.cpp'', FileLine = Some 10, FileColumn = Some 1\<rparr>"

definition demo_debugger :: dte_debugger where
  "demo_debugger =
     \<lparr>CurrentThread = Some \<lparr>StackFrames =
        [\<lparr>FunctionName = ''foo''\<rparr>, \<lparr>FunctionName = ''bar''\<rparr>,
         \<lparr>FunctionName = ''mainCRTStartup''\<rparr>, \<lparr>FunctionName = ''__tmainCRTStartup''\<rparr>]\<rparr>,
      BreakpointLastHit = Some demo_breakpoint,
      Breakpoints = [demo_breakpoint],
      CurrentMode = 2,
      GetExpression = demo_GetExpression\<rparr>"

definition demo_StepInto :: "dte_debugger \<Rightarrow> exn + dte_debugger" where
  "demo_StepInto d = Inr (d\<lparr>BreakpointLastHit := None\<rparr>)"

definition demo_Go :: "dte_debugger \<Rightarrow> exn + dte_debugger" where
  "demo_Go d = Inr (d\<lparr>CurrentMode := 1\<rparr>)"

definition demo_vs :: VisualStudio where
  "demo_vs =
     \<lparr>debugger = demo_debugger, fn_step = Some demo_StepInto, fn_go = Some demo_Go,
      sanitize_function_name = Some, vs_step_index = 0\<rparr>"

text \<open>The same session after a single step: no breakpoint was hit last.\<close>

definition demo_vs_stepped :: VisualStudio where
  "demo_vs_stepped = demo_vs\<lparr>debugger := demo_debugger\<lparr>BreakpointLastHit := None\<rparr>\<rparr>"

text \<open>A sandbox run: the two input files, the parsed options and the loaded trace.\<close>

definition demo_options :: options where
  "demo_options =
     \<lparr>json = ''trace.json'', pickled_options = ''options.pickle'',
      working_directory = Some ''/tmp/dexter'', lint = ''off'', unittest = ''off'',
      time_report = False, opt_debugger = ''vs2015'', verbose = False,
      error_debug = False, other_options = []\<rparr>"

definition demo_pickled_options :: options where
  "demo_pickled_options =
     \<lparr>json = ''parent.json'', pickled_options = ''parent.pickle'',
      working_directory = Some ''/parent'', lint = ''on'', unittest = ''show-failures'',
      time_report = True, opt_debugger = ''vs2017'', verbose = True,
      error_debug = False, other_options = [(''executable'', ''a.exe'')]\<rparr>"

definition demo_trace :: DextIR where
  "demo_trace = \<lparr>steps = [], ir_debugger = None, run_configuration = ''-O2''\<rparr>"

definition demo_importDextIR :: "string \<Rightarrow> exn + DextIR" where
  "demo_importDextIR contents = Inr demo_trace"

definition demo_pickle_load :: "string \<Rightarrow> exn + options" where
  "demo_pickle_load bytes = Inr demo_pickled_options"

definition demo_as_json :: "DextIR \<Rightarrow> string" where
  "demo_as_json ir = ''steps: '' @ replicate (length (steps ir)) (CHR ''I'')"

definition demo_context :: tool_context where
  "demo_context = \<lparr>ctx_options = demo_options, dextIR = Some demo_trace\<rparr>"

definition demo_world :: world where
  "demo_world =
     \<lparr>fs = [''trace.json'' \<mapsto> ''old trace'', ''options.pickle'' \<mapsto> ''pickled''],
      stderr = [], Timer_display = False, calls = []\<rparr>"

definition demo_step :: "int \<Rightarrow> StepIR" where
  "demo_step i = \<lparr>step_index = i, frames = [], stop_reason = STEP\<rparr>"

text \<open>A debugger whose stepping raises after two Steps, and one that is not available.\<close>

definition failing_start :: "DextIR \<Rightarrow> exn option \<times> DextIR" where
  "failing_start ir =
     (Some (DebuggerException ''step failed''),
      ir\<lparr>steps := steps ir @ [demo_step 0, demo_step 1]\<rparr>)"

definition failing_debugger :: loaded_debugger where
  "failing_debugger =
     \<lparr>dbg_name = ''vs2015'', is_available = True, loading_error = [],
      loading_error_trace = [], debugger_info = ''Visual Studio 2015'',
      start = failing_start\<rparr>"

definition load_failing :: "string \<Rightarrow> DextIR \<Rightarrow> exn + loaded_debugger" where
  "load_failing name ir = Inr failing_debugger"

text \<open>A debugger whose stepping ends normally after two Steps.\<close>

definition finishing_start :: "DextIR \<Rightarrow> exn option \<times> DextIR" where
  "finishing_start ir = (None, ir\<lparr>steps := steps ir @ [demo_step 0, demo_step 1]\<rparr>)"

definition finishing_debugger :: loaded_debugger where
  "finishing_debugger =
     \<lparr>dbg_name = ''vs2015'', is_available = True, loading_error = [],
      loading_error_trace = [], debugger_info = ''Visual Studio 2015'',
      start = finishing_start\<rparr>"

definition load_finishing :: "string \<Rightarrow> DextIR \<Rightarrow> exn + loaded_debugger" where
  "load_finishing name ir = Inr finishing_debugger"

definition unavailable_debugger :: loaded_debugger where
  "unavailable_debugger =
     \<lparr>dbg_name = ''vs2015'', is_available = False,
      loading_error = ''could not debug the specified executable'',
      loading_error_trace = [''File VisualStudio.py, line 76''],
      debugger_info = ''Visual Studio 2015'', start = failing_start\<rparr>"

definition load_unavailable :: "string \<Rightarrow> DextIR \<Rightarrow> exn + loaded_debugger" where
  "load_unavailable name ir = Inr unavailable_debugger"


text \<open>The Steps and the partial trace that these sessions give.\<close>

definition demo_step_info :: StepIR where
  "demo_step_info =
     \<lparr>step_index = 0,
      frames =
        [\<lparr>func = Some ''foo'', is_inlined = False,
          loc = \<lparr>path = Some ''a.cpp'', lineno = Some 10, column = Some 1\<rparr>\<rparr>,
         \<lparr>func = Some ''bar'', is_inlined = False, loc = empty_loc\<rparr>],
      stop_reason = BREAKPOINT\<rparr>"

definition demo_stepped_info :: StepIR where
  "demo_stepped_info =
     \<lparr>step_index = 0,
      frames =
        [\<lparr>func = Some ''foo'', is_inlined = False, loc = empty_loc\<rparr>,
         \<lparr>func = Some ''bar'', is_inlined = False, loc = empty_loc\<rparr>],
      stop_reason = STEP\<rparr>"

definition demo_partial_trace :: DextIR where
  "demo_partial_trace =
     \<lparr>steps = [demo_step 0, demo_step 1], ir_debugger = Some ''Visual Studio 2015'',
      run_configuration = ''-O2''\<rparr>"

section \<open>Strings\<close>

lemma startswith_append: "startswith (xs @ ss) xs"
  by (induction xs) auto

lemma str_in_prefix: "str_in xs (xs @ ss)"
proof (cases "xs @ ss")
  case Nil
  then show ?thesis by simp
next
  case (Cons c cs)
  have "startswith (xs @ ss) xs" by (rule startswith_append)
  with Cons show ?thesis by simp
qed

lemma str_in_append: "str_in xs (ps @ xs @ ss)"
  by (induction ps) (auto simp: str_in_prefix)

section \<open>get_step_info\<close>

lemma collect_frames_takeWhile:
  "collect_frames self sfs acc = acc @ map (make_frame self) (innermost_prefix self sfs)"
  by (induction sfs arbitrary: acc) (auto simp: innermost_prefix_def Let_def)

lemma get_step_info_Inr:
  assumes "get_step_info self = Inr s"
  shows "\<exists>thread. CurrentThread (debugger self) = Some thread
    \<and> s = \<lparr>step_index = vs_step_index self,
              frames = set_first_loc (location self)
                         (map (make_frame self) (innermost_prefix self (StackFrames thread))),
              stop_reason = (if path (location self) = None then STEP else BREAKPOINT)\<rparr>"
  using assms
  by (auto simp: get_step_info_def Let_def collect_frames_takeWhile split: option.splits)

text \<open>With a current thread, \<open>get_step_info\<close> always returns a Step.\<close>

lemma get_step_info_total:
  "CurrentThread (debugger self) = Some thread \<Longrightarrow> \<exists>s. get_step_info self = Inr s"
  by (simp add: get_step_info_def Let_def)

lemma demo_vs_step_info: "get_step_info demo_vs = Inr demo_step_info"
  by (simp add: get_step_info_def demo_vs_def demo_debugger_def demo_breakpoint_def
      demo_step_info_def location_def set_first_loc_def make_frame_def is_below_main_def
      any_in_def frames_below_main_def or_empty_def empty_loc_def Let_def)

lemma demo_vs_stepped_info: "get_step_info demo_vs_stepped = Inr demo_stepped_info"
  by (simp add: get_step_info_def demo_vs_stepped_def demo_vs_def demo_debugger_def
      demo_stepped_info_def location_def set_first_loc_def make_frame_def is_below_main_def
      any_in_def frames_below_main_def or_empty_def empty_loc_def Let_def)

lemma demo_vs_thread:
  "CurrentThread (debugger demo_vs) = Some \<lparr>StackFrames =
        [\<lparr>FunctionName = ''foo''\<rparr>, \<lparr>FunctionName = ''bar''\<rparr>,
         \<lparr>FunctionName = ''mainCRTStartup''\<rparr>, \<lparr>FunctionName = ''__tmainCRTStartup''\<rparr>]\<rparr>"
  by (simp add: demo_vs_def demo_debugger_def)

text \<open>
  The test is containment, not equality: a name as the backend prints it, with module
  and line, is below main as soon as it contains one of the names.
\<close>

lemma below_main_inside_name:
  "is_below_main \<lparr>func = Some ''a.exe!mainCRTStartup() Line 17'', is_inlined = False,
                   loc = empty_loc\<rparr>"
  and "\<not> is_below_main \<lparr>func = Some ''a.exe!main() Line 3'', is_inlined = False,
                          loc = empty_loc\<rparr>"
  and "\<not> is_below_main \<lparr>func = None, is_inlined = False, loc = empty_loc\<rparr>"
  by (simp_all add: is_below_main_def any_in_def frames_below_main_def or_empty_def)

lemma map_func_set_first_loc: "map func (set_first_loc l frs) = map func frs"
  by (cases frs) (simp_all add: set_first_loc_def)

text \<open>
  Claim C1. Every Step that \<open>get_step_info\<close> returns has the stop reason \<open>STEP\<close> when
  the Location queried from the last-hit breakpoint has no path, and \<open>BREAKPOINT\<close>
  when it has one.
\<close>

theorem stop_reason_by_path:
  assumes "get_step_info self = Inr s"
  shows "stop_reason s = (if path (location self) = None then STEP else BREAKPOINT)"
  using get_step_info_Inr [OF assms] by auto

theorem stop_reason_by_path_witness:
  "get_step_info demo_vs = Inr demo_step_info
   \<and> path (location demo_vs) = Some ''a.cpp'' \<and> stop_reason demo_step_info = BREAKPOINT
   \<and> get_step_info demo_vs_stepped = Inr demo_stepped_info
   \<and> path (location demo_vs_stepped) = None \<and> stop_reason demo_stepped_info = STEP"
  using stop_reason_by_path [OF demo_vs_step_info] stop_reason_by_path [OF demo_vs_stepped_info]
    demo_vs_step_info demo_vs_stepped_info
  by (simp add: location_def demo_vs_def demo_vs_stepped_def demo_debugger_def
      demo_breakpoint_def)

text \<open>
  Claim C2. The frames of the Step that \<open>get_step_info\<close> returns are exactly the
  frames made from the innermost prefix of the reported stack that ends just before the
  first frame whose function name contains one of the \<open>frames_below_main\<close> names; that
  frame and every frame outside it are absent. The stack
  \<open>foo, bar, mainCRTStartup, __tmainCRTStartup\<close> gives exactly \<open>foo, bar\<close>.
\<close>

theorem retained_frames_are_innermost_prefix:
  assumes "get_step_info self = Inr s" and "CurrentThread (debugger self) = Some thread"
  shows "frames s = set_first_loc (location self)
                      (map (make_frame self) (innermost_prefix self (StackFrames thread)))
         \<and> map func (frames s) =
             map (\<lambda>sf. sanitize_function_name self (FunctionName sf))
               (innermost_prefix self (StackFrames thread))"
proof -
  from get_step_info_Inr [OF assms(1)] assms(2)
  have fr: "frames s = set_first_loc (location self)
      (map (make_frame self) (innermost_prefix self (StackFrames thread)))"
    by auto
  have "map func (frames s) = map func (map (make_frame self)
      (innermost_prefix self (StackFrames thread)))"
    unfolding fr by (rule map_func_set_first_loc)
  also have "\<dots> = map (\<lambda>sf. sanitize_function_name self (FunctionName sf))
      (innermost_prefix self (StackFrames thread))"
    by (simp add: make_frame_def)
  finally show ?thesis using fr by simp
qed

theorem retained_frames_are_innermost_prefix_witness:
  "get_step_info demo_vs = Inr demo_step_info
   \<and> innermost_prefix demo_vs
        [\<lparr>FunctionName = ''foo''\<rparr>, \<lparr>FunctionName = ''bar''\<rparr>,
         \<lparr>FunctionName = ''mainCRTStartup''\<rparr>, \<lparr>FunctionName = ''__tmainCRTStartup''\<rparr>]
       = [\<lparr>FunctionName = ''foo''\<rparr>, \<lparr>FunctionName = ''bar''\<rparr>]
   \<and> map func (frames demo_step_info) = [Some ''foo'', Some ''bar'']"
proof -
  have kept: "innermost_prefix demo_vs
        [\<lparr>FunctionName = ''foo''\<rparr>, \<lparr>FunctionName = ''bar''\<rparr>,
         \<lparr>FunctionName = ''mainCRTStartup''\<rparr>, \<lparr>FunctionName = ''__tmainCRTStartup''\<rparr>]
       = [\<lparr>FunctionName = ''foo''\<rparr>, \<lparr>FunctionName = ''bar''\<rparr>]"
    by (simp add: innermost_prefix_def make_frame_def is_below_main_def any_in_def
        frames_below_main_def or_empty_def demo_vs_def)
  have san: "sanitize_function_name demo_vs = Some"
    by (simp add: demo_vs_def)
  from retained_frames_are_innermost_prefix [OF demo_vs_step_info demo_vs_thread, THEN conjunct2]
  have "map func (frames demo_step_info) = [Some ''foo'', Some ''bar'']"
    by (simp add: kept san)
  with demo_vs_step_info kept show ?thesis by simp
qed

text \<open>
  Claim C6. In every Step that \<open>get_step_info\<close> returns with a non-empty frame
  sequence, the first frame carries the Location queried from the last-hit breakpoint
  and every other frame carries the empty Location (no path, no line, no column).
\<close>

theorem only_innermost_frame_has_location:
  assumes "get_step_info self = Inr s" and "frames s \<noteq> []"
  shows "loc (hd (frames s)) = location self
         \<and> (\<forall>f \<in> set (tl (frames s)). loc f = empty_loc)"
proof -
  from get_step_info_Inr [OF assms(1)] obtain thread :: dte_thread where
    fr: "frames s = set_first_loc (location self)
      (map (make_frame self) (innermost_prefix self (StackFrames thread)))"
    by auto
  show ?thesis
  proof (cases "innermost_prefix self (StackFrames thread)")
    case Nil
    with fr assms(2) show ?thesis by (simp add: set_first_loc_def)
  next
    case (Cons sf sfs)
    with fr show ?thesis
      by (auto simp: set_first_loc_def make_frame_def empty_loc_def)
  qed
qed

theorem only_innermost_frame_has_location_witness:
  "get_step_info demo_vs = Inr demo_step_info \<and> frames demo_step_info \<noteq> []
   \<and> loc (hd (frames demo_step_info))
       = \<lparr>path = Some ''a.cpp'', lineno = Some 10, column = Some 1\<rparr>
   \<and> map loc (tl (frames demo_step_info)) = [empty_loc]"
proof -
  have ne: "frames demo_step_info \<noteq> []" by (simp add: demo_step_info_def)
  from only_innermost_frame_has_location [OF demo_vs_step_info ne] demo_vs_step_info ne
  show ?thesis
    by (simp add: demo_step_info_def location_def demo_vs_def demo_debugger_def
        demo_breakpoint_def)
qed

section \<open>launch and step\<close>

text \<open>
  Claim C9. For every driver state, \<open>launch\<close> has exactly the backend effect, the
  resulting state and the exception of one \<open>step\<close>.
\<close>

theorem launch_is_step: "launch self = step self"
  by (simp add: launch_def)

theorem launch_is_step_witness:
  "launch demo_vs = step demo_vs
   \<and> launch demo_vs = Inr (demo_vs\<lparr>debugger := demo_debugger\<lparr>BreakpointLastHit := None\<rparr>\<rparr>)"
  using launch_is_step [of demo_vs]
  by (simp add: step_def call_backend_def demo_vs_def demo_StepInto_def)

section \<open>evaluate_expression\<close>

lemma demo_x: "evaluate_expression demo_vs ''x'' =
   \<lparr>expression = ''x'', value_text = ''Variable is optimized away and not available'',
    type_text = ''int'', error_string = None, is_optimized_away = True,
    could_evaluate = True, is_irretrievable = False\<rparr>"
  by (simp add: evaluate_expression_def Let_def demo_vs_def demo_debugger_def
      demo_GetExpression_def any_in_def optimized_away_texts_def irretrievable_texts_def)

text \<open>
  Claim C10. In every result of \<open>evaluate_expression\<close>, \<open>is_optimized_away\<close> or
  \<open>is_irretrievable\<close> implies \<open>could_evaluate\<close>, and \<open>error_string\<close> is \<open>None\<close>.
\<close>

theorem flags_imply_could_evaluate:
  "(is_optimized_away (evaluate_expression self expr)
      \<or> is_irretrievable (evaluate_expression self expr)
    \<longrightarrow> could_evaluate (evaluate_expression self expr))
   \<and> error_string (evaluate_expression self expr) = None"
  by (simp add: evaluate_expression_def Let_def)

theorem flags_imply_could_evaluate_witness:
  "is_optimized_away (evaluate_expression demo_vs ''x'')
   \<and> could_evaluate (evaluate_expression demo_vs ''x'')
   \<and> error_string (evaluate_expression demo_vs ''x'') = None"
  using flags_imply_could_evaluate [of demo_vs "''x''"]
  by (simp add: demo_x)

text \<open>
  Claim C3 as stated fails: the value text of the expression \<open>s\<close> contains an
  optimized-away sentinel and also \<open>???\<close>, and its result has \<open>is_irretrievable\<close> set.
\<close>

theorem optimized_away_and_irretrievable_counterexample:
  "any_in optimized_away_texts (Value (GetExpression (debugger demo_vs) ''s''))
   \<and> is_irretrievable (evaluate_expression demo_vs ''s'')"
  by (simp add: evaluate_expression_def Let_def demo_vs_def demo_debugger_def
      demo_GetExpression_def any_in_def optimized_away_texts_def irretrievable_texts_def)

text \<open>
  Claim C3, amended. When the raw value text contains an optimized-away sentinel, the
  result has \<open>could_evaluate\<close> and \<open>is_optimized_away\<close> set; \<open>is_irretrievable\<close> is
  computed on its own and is false exactly when the text contains neither \<open>???\<close> nor
  \<open><Unable to read memory>\<close>.
\<close>

theorem optimized_away_is_evaluable:
  assumes "any_in optimized_away_texts (Value (GetExpression (debugger self) expr))"
  shows "could_evaluate (evaluate_expression self expr)
         \<and> is_optimized_away (evaluate_expression self expr)
         \<and> is_irretrievable (evaluate_expression self expr)
             = any_in irretrievable_texts (Value (GetExpression (debugger self) expr))"
  using assms by (simp add: evaluate_expression_def Let_def)

theorem optimized_away_is_evaluable_witness:
  "any_in optimized_away_texts (Value (GetExpression (debugger demo_vs) ''x''))
   \<and> could_evaluate (evaluate_expression demo_vs ''x'')
   \<and> is_optimized_away (evaluate_expression demo_vs ''x'')
   \<and> \<not> is_irretrievable (evaluate_expression demo_vs ''x'')"
proof -
  have h: "any_in optimized_away_texts (Value (GetExpression (debugger demo_vs) ''x''))"
    by (simp add: demo_vs_def demo_debugger_def demo_GetExpression_def any_in_def
        optimized_away_texts_def)
  from optimized_away_is_evaluable [OF h] h show ?thesis
    by (simp add: demo_x)
qed

section \<open>The sandbox tool\<close>

text \<open>
  Claim C8. When \<open>handle_options\<close> succeeds, the options of the child are the unpickled
  options with exactly the working directory, the lint toggle, the unit-test toggle and
  the Trace file path replaced by the values of the options that were live when it was
  entered; every other field is the unpickled one.
\<close>

theorem handle_options_overrides:
  assumes "handle_options importDextIR pickle_load ctx w = (Inr (), ctx', w')"
    and "fs w (pickled_options (ctx_options ctx)) = Some bytes"
    and "pickle_load bytes = Inr poptions"
  shows "ctx_options ctx' =
           poptions\<lparr>working_directory := working_directory (ctx_options ctx),
                    lint := lint (ctx_options ctx),
                    unittest := unittest (ctx_options ctx),
                    json := json (ctx_options ctx)\<rparr>
         \<and> pickled_options (ctx_options ctx') = pickled_options poptions
         \<and> time_report (ctx_options ctx') = time_report poptions
         \<and> opt_debugger (ctx_options ctx') = opt_debugger poptions
         \<and> verbose (ctx_options ctx') = verbose poptions
         \<and> error_debug (ctx_options ctx') = error_debug poptions
         \<and> other_options (ctx_options ctx') = other_options poptions"
  using assms
  by (auto simp: handle_options_def Let_def split: option.splits sum.splits)

lemma demo_handle_options:
  "handle_options demo_importDextIR demo_pickle_load demo_context demo_world =
     (Inr (),
      demo_context\<lparr>ctx_options :=
        demo_pickled_options\<lparr>working_directory := Some ''/tmp/dexter'', lint := ''off'',
                             unittest := ''off'', json := ''trace.json''\<rparr>\<rparr>,
      demo_world\<lparr>Timer_display := True\<rparr>)"
  by (simp add: handle_options_def Let_def demo_importDextIR_def demo_pickle_load_def
      demo_context_def demo_world_def demo_options_def demo_pickled_options_def)

theorem handle_options_overrides_witness:
  "handle_options demo_importDextIR demo_pickle_load demo_context demo_world =
     (Inr (),
      demo_context\<lparr>ctx_options :=
        demo_pickled_options\<lparr>working_directory := Some ''/tmp/dexter'', lint := ''off'',
                             unittest := ''off'', json := ''trace.json''\<rparr>\<rparr>,
      demo_world\<lparr>Timer_display := True\<rparr>)
   \<and> fs demo_world (pickled_options (ctx_options demo_context)) = Some ''pickled''
   \<and> demo_pickle_load ''pickled'' = Inr demo_pickled_options
   \<and> opt_debugger (demo_pickled_options\<lparr>working_directory := Some ''/tmp/dexter'',
         lint := ''off'', unittest := ''off'', json := ''trace.json''\<rparr>) = ''vs2017''"
proof -
  have f: "fs demo_world (pickled_options (ctx_options demo_context)) = Some ''pickled''"
    by (simp add: demo_world_def demo_context_def demo_options_def)
  have l: "demo_pickle_load ''pickled'' = Inr demo_pickled_options"
    by (simp add: demo_pickle_load_def)
  from handle_options_overrides [OF demo_handle_options f l] demo_handle_options f l
  show ?thesis by (simp add: demo_pickled_options_def)
qed

lemma demo_failing_run:
  "Tool_go load_failing demo_as_json demo_context demo_world =
     (Inl (Error ''step failed''),
      demo_context\<lparr>dextIR := Some demo_partial_trace\<rparr>,
      demo_world\<lparr>calls := [Load, Enter, Start, Exit]\<rparr>)"
  by (simp add: Tool_go_def Let_def load_failing_def failing_debugger_def failing_start_def
      demo_context_def demo_world_def demo_trace_def demo_partial_trace_def)

text \<open>
  Claim C4 as stated fails: the stepping of this run raises a \<open>DebuggerException\<close>
  after two Steps; \<open>Tool.go\<close> raises an \<open>Error\<close>, the trace in memory has the two
  Steps, and the Trace file still has its content from before the run.
\<close>

theorem failed_run_not_persisted_counterexample:
  "fst (Tool_go load_failing demo_as_json demo_context demo_world) = Inl (Error ''step failed'')
   \<and> dextIR (fst (snd (Tool_go load_failing demo_as_json demo_context demo_world)))
       = Some demo_partial_trace
   \<and> map step_index (steps demo_partial_trace) = [0, 1]
   \<and> fs (snd (snd (Tool_go load_failing demo_as_json demo_context demo_world))) ''trace.json''
       = Some ''old trace''
   \<and> fs (snd (snd (Tool_go load_failing demo_as_json demo_context demo_world))) ''trace.json''
       \<noteq> Some (demo_as_json demo_partial_trace)"
  unfolding demo_failing_run
  by (simp add: demo_world_def demo_partial_trace_def demo_step_def demo_as_json_def)

text \<open>
  Claim C4, amended. When the stepping raises a \<open>DebuggerException\<close>, \<open>Tool.go\<close>
  raises an \<open>Error\<close> with the same text once the debugger is torn down, and writes no
  file: the Trace file keeps its content from before the run, and the Steps appended
  before the failure are in the trace in memory only. The Trace file is written exactly
  when the stepping ends without an exception; any other exception of the stepping
  passes through and leaves every file as it was, too.
\<close>

theorem trace_written_only_without_exception:
  assumes "dextIR ctx = Some ir"
    and "load (opt_debugger (ctx_options ctx)) ir = Inr dbg"
    and "is_available dbg"
    and "start dbg (ir\<lparr>ir_debugger := Some (debugger_info dbg)\<rparr>) = (raised, ir')"
  shows "Tool_go load as_json ctx w =
           (case raised of
              None \<Rightarrow>
                (Inr (), ctx\<lparr>dextIR := Some ir'\<rparr>,
                 w\<lparr>calls := calls w @ [Load, Enter, Start, Exit],
                   fs := (fs w)(json (ctx_options ctx) \<mapsto> as_json ir')\<rparr>)
            | Some e \<Rightarrow>
                (Inl (case e of DebuggerException m \<Rightarrow> Error m | _ \<Rightarrow> e),
                 ctx\<lparr>dextIR := Some ir'\<rparr>,
                 w\<lparr>calls := calls w @ [Load, Enter, Start, Exit]\<rparr>))
         \<and> (raised \<noteq> None \<longrightarrow> fs (snd (snd (Tool_go load as_json ctx w))) = fs w)
         \<and> (\<forall>m. raised = Some (DebuggerException m) \<longrightarrow>
               Tool_go load as_json ctx w =
                 (Inl (Error m), ctx\<lparr>dextIR := Some ir'\<rparr>,
                  w\<lparr>calls := calls w @ [Load, Enter, Start, Exit]\<rparr>))"
proof -
  have run: "Tool_go load as_json ctx w =
           (case raised of
              None \<Rightarrow>
                (Inr (), ctx\<lparr>dextIR := Some ir'\<rparr>,
                 w\<lparr>calls := calls w @ [Load, Enter, Start, Exit],
                   fs := (fs w)(json (ctx_options ctx) \<mapsto> as_json ir')\<rparr>)
            | Some e \<Rightarrow>
                (Inl (case e of DebuggerException m \<Rightarrow> Error m | _ \<Rightarrow> e),
                 ctx\<lparr>dextIR := Some ir'\<rparr>,
                 w\<lparr>calls := calls w @ [Load, Enter, Start, Exit]\<rparr>))"
  proof (cases raised)
    case None
    with assms show ?thesis by (simp add: Tool_go_def Let_def)
  next
    case (Some e)
    with assms show ?thesis by (cases e) (simp_all add: Tool_go_def Let_def)
  qed
  have unchanged: "raised \<noteq> None \<longrightarrow> fs (snd (snd (Tool_go load as_json ctx w))) = fs w"
    unfolding run by (cases raised) simp_all
  have reraised: "\<forall>m. raised = Some (DebuggerException m) \<longrightarrow>
               Tool_go load as_json ctx w =
                 (Inl (Error m), ctx\<lparr>dextIR := Some ir'\<rparr>,
                  w\<lparr>calls := calls w @ [Load, Enter, Start, Exit]\<rparr>)"
    unfolding run by simp
  from run unchanged reraised show ?thesis by blast
qed

theorem trace_written_only_without_exception_witness:
  "dextIR demo_context = Some demo_trace
   \<and> load_failing (opt_debugger (ctx_options demo_context)) demo_trace = Inr failing_debugger
   \<and> is_available failing_debugger
   \<and> start failing_debugger (demo_trace\<lparr>ir_debugger := Some (debugger_info failing_debugger)\<rparr>)
       = (Some (DebuggerException ''step failed''), demo_partial_trace)
   \<and> Tool_go load_failing demo_as_json demo_context demo_world =
       (Inl (Error ''step failed''), demo_context\<lparr>dextIR := Some demo_partial_trace\<rparr>,
        demo_world\<lparr>calls := calls demo_world @ [Load, Enter, Start, Exit]\<rparr>)
   \<and> fs (snd (snd (Tool_go load_failing demo_as_json demo_context demo_world))) = fs demo_world
   \<and> load_finishing (opt_debugger (ctx_options demo_context)) demo_trace = Inr finishing_debugger
   \<and> is_available finishing_debugger
   \<and> start finishing_debugger
         (demo_trace\<lparr>ir_debugger := Some (debugger_info finishing_debugger)\<rparr>)
       = (None, demo_partial_trace)
   \<and> Tool_go load_finishing demo_as_json demo_context demo_world =
       (Inr (), demo_context\<lparr>dextIR := Some demo_partial_trace\<rparr>,
        demo_world\<lparr>calls := calls demo_world @ [Load, Enter, Start, Exit],
                    fs := (fs demo_world)(''trace.json'' \<mapsto> ''steps: II'')\<rparr>)"
proof -
  have a: "dextIR demo_context = Some demo_trace"
    by (simp add: demo_context_def)
  have b: "load_failing (opt_debugger (ctx_options demo_context)) demo_trace = Inr failing_debugger"
    by (simp add: load_failing_def)
  have c: "is_available failing_debugger"
    by (simp add: failing_debugger_def)
  have d: "start failing_debugger (demo_trace\<lparr>ir_debugger := Some (debugger_info failing_debugger)\<rparr>)
       = (Some (DebuggerException ''step failed''), demo_partial_trace)"
    by (simp add: failing_debugger_def failing_start_def demo_trace_def demo_partial_trace_def)
  have b': "load_finishing (opt_debugger (ctx_options demo_context)) demo_trace
       = Inr finishing_debugger"
    by (simp add: load_finishing_def)
  have c': "is_available finishing_debugger"
    by (simp add: finishing_debugger_def)
  have d': "start finishing_debugger
         (demo_trace\<lparr>ir_debugger := Some (debugger_info finishing_debugger)\<rparr>)
       = (None, demo_partial_trace)"
    by (simp add: finishing_debugger_def finishing_start_def demo_trace_def
        demo_partial_trace_def)
  have j: "json (ctx_options demo_context) = ''trace.json''"
    by (simp add: demo_context_def demo_options_def)
  have t: "demo_as_json demo_partial_trace = ''steps: II''"
    by (simp add: demo_as_json_def demo_partial_trace_def)
  from trace_written_only_without_exception
      [where load = load_failing and as_json = demo_as_json and w = demo_world, OF a b c d]
  have failed: "Tool_go load_failing demo_as_json demo_context demo_world =
       (Inl (Error ''step failed''), demo_context\<lparr>dextIR := Some demo_partial_trace\<rparr>,
        demo_world\<lparr>calls := calls demo_world @ [Load, Enter, Start, Exit]\<rparr>)"
    and same: "fs (snd (snd (Tool_go load_failing demo_as_json demo_context demo_world)))
        = fs demo_world"
    by simp_all
  from trace_written_only_without_exception
      [where load = load_finishing and as_json = demo_as_json and w = demo_world,
       OF a b' c' d']
  have finished: "Tool_go load_finishing demo_as_json demo_context demo_world =
       (Inr (), demo_context\<lparr>dextIR := Some demo_partial_trace\<rparr>,
        demo_world\<lparr>calls := calls demo_world @ [Load, Enter, Start, Exit],
                    fs := (fs demo_world)(''trace.json'' \<mapsto> ''steps: II'')\<rparr>)"
    by (simp add: j t)
  from a b c d b' c' d' failed same finished show ?thesis by blast
qed

lemma could_not_load_msg_split:
  "could_not_load_msg opts dbg =
     (''<d>could not load '' @ dbg_name dbg @ ''</> ('') @ loading_error dbg @
     ('')'' @ nl @ (if verbose opts
                    then nl @ ''    '' @ join ''    '' (loading_error_trace dbg) else []))"
  by (simp add: could_not_load_msg_def Let_def)

lemma str_in_error_text:
  "str_in (loading_error dbg) (nl @ ''error: '' @ could_not_load_msg opts dbg @ nl)"
proof -
  define ps where "ps = nl @ ''error: '' @ ''<d>could not load '' @ dbg_name dbg @ ''</> (''"
  define ss where "ss = '')'' @ nl @ (if verbose opts
      then nl @ ''    '' @ join ''    '' (loading_error_trace dbg) else []) @ nl"
  have "nl @ ''error: '' @ could_not_load_msg opts dbg @ nl = ps @ loading_error dbg @ ss"
    unfolding could_not_load_msg_split ps_def ss_def by simp
  then show ?thesis by (simp only: str_in_append)
qed

lemma demo_could_not_load_msg:
  "could_not_load_msg demo_options unavailable_debugger
     = ''<d>could not load vs2015</> (could not debug the specified executable)'' @ nl"
  by (simp add: could_not_load_msg_def Let_def demo_options_def unavailable_debugger_def)

text \<open>
  Claim C5. When the loaded debugger is not available, the run ends with a non-zero
  exit code (\<open>main\<close> returns 1, or re-raises the \<open>Error\<close> under \<open>error_debug\<close>), the
  debugger is neither entered nor started, no file is written, and the text sent to
  \<open>stderr\<close> contains the loading error of the debugger.
\<close>

theorem unavailable_debugger_is_fatal:
  assumes "dextIR ctx = Some ir"
    and "load (opt_debugger (ctx_options ctx)) ir = Inr dbg"
    and "\<not> is_available dbg"
  shows "fst (main_go load as_json ctx w)
           = (if error_debug (ctx_options ctx)
              then Raised (Error (could_not_load_msg (ctx_options ctx) dbg))
              else Returned 1)
         \<and> exit_code (fst (main_go load as_json ctx w)) \<noteq> 0
         \<and> calls (snd (main_go load as_json ctx w)) = calls w @ [Load]
         \<and> fs (snd (main_go load as_json ctx w)) = fs w
         \<and> stderr (snd (main_go load as_json ctx w))
             = stderr w @ [Auto (nl @ ''error: '' @ could_not_load_msg (ctx_options ctx) dbg @ nl)]
         \<and> str_in (loading_error dbg)
             (nl @ ''error: '' @ could_not_load_msg (ctx_options ctx) dbg @ nl)"
proof -
  from assms have run: "Tool_go load as_json ctx w =
      (Inl (Error (could_not_load_msg (ctx_options ctx) dbg)),
       ctx\<lparr>dextIR := Some (ir\<lparr>ir_debugger := Some (debugger_info dbg)\<rparr>)\<rparr>,
       w\<lparr>calls := calls w @ [Load]\<rparr>)"
    by (simp add: Tool_go_def Let_def)
  have inside: "str_in (loading_error dbg)
      (nl @ ''error: '' @ could_not_load_msg (ctx_options ctx) dbg @ nl)"
    by (rule str_in_error_text)
  have "fst (main_go load as_json ctx w)
           = (if error_debug (ctx_options ctx)
              then Raised (Error (could_not_load_msg (ctx_options ctx) dbg))
              else Returned 1)"
    and "exit_code (fst (main_go load as_json ctx w)) \<noteq> 0"
    and "calls (snd (main_go load as_json ctx w)) = calls w @ [Load]"
    and "fs (snd (main_go load as_json ctx w)) = fs w"
    and "stderr (snd (main_go load as_json ctx w))
             = stderr w @ [Auto (nl @ ''error: '' @ could_not_load_msg (ctx_options ctx) dbg @ nl)]"
    by (simp_all add: main_go_def run main_except_def exit_code_def Let_def)
  with inside show ?thesis by simp
qed

theorem unavailable_debugger_is_fatal_witness:
  "dextIR demo_context = Some demo_trace
   \<and> load_unavailable (opt_debugger (ctx_options demo_context)) demo_trace
       = Inr unavailable_debugger
   \<and> \<not> is_available unavailable_debugger
   \<and> fst (main_go load_unavailable demo_as_json demo_context demo_world) = Returned 1
   \<and> calls (snd (main_go load_unavailable demo_as_json demo_context demo_world)) = [Load]
   \<and> fs (snd (main_go load_unavailable demo_as_json demo_context demo_world)) ''trace.json''
       = Some ''old trace''
   \<and> stderr (snd (main_go load_unavailable demo_as_json demo_context demo_world))
       = [Auto (nl @ ''error: <d>could not load vs2015</> (could not debug the specified executable)''
                @ nl @ nl)]"
proof -
  have a: "dextIR demo_context = Some demo_trace"
    by (simp add: demo_context_def)
  have b: "load_unavailable (opt_debugger (ctx_options demo_context)) demo_trace
       = Inr unavailable_debugger"
    by (simp add: load_unavailable_def)
  have c: "\<not> is_available unavailable_debugger"
    by (simp add: unavailable_debugger_def)
  have o: "ctx_options demo_context = demo_options"
    by (simp add: demo_context_def)
  have e: "\<not> error_debug demo_options"
    by (simp add: demo_options_def)
  from unavailable_debugger_is_fatal
      [where load = load_unavailable and as_json = demo_as_json and w = demo_world, OF a b c]
    a b c
  show ?thesis
    by (simp add: o e demo_could_not_load_msg demo_world_def)
qed

end
